theory Spec2Isabelle
  imports Main
begin

section \<open>The chat gateway: provider routing and error normalisation\<close>

text \<open>
  A shallow embedding of \<^verbatim>\<open>serviceproxy/gateway_on_streamlit\<close>: the two per-provider
  helpers \<^verbatim>\<open>_google_generate\<close> and \<^verbatim>\<open>_azure_generate\<close>, the dispatcher
  \<^verbatim>\<open>invoke\<close> (\<^verbatim>\<open>run.py\<close>), the two error normalisers (\<^verbatim>\<open>utils.py\<close>), the exception
  classes (\<^verbatim>\<open>exceptions.py\<close>) and the settings object (\<^verbatim>\<open>schemas.py\<close>).

  The vendor SDKs are outside the repository. They enter the model as a parameter, the
  \<open>backend\<close>: a function from the client configuration, the model name and the prompt to
  what the SDK call does (it returns a value or raises). Everything the Python does besides
  returning a value is explicit: the module-level objects that are read or written live in a
  record \<open>process\<close>, every call that leaves the function (SDK configuration, SDK call,
  logging, \<^verbatim>\<open>st.error\<close>) is appended to the \<open>trace\<close> of that record, and an exception is
  the \<open>Inl\<close> branch of a sum.
\<close>

subsection \<open>Python values\<close>

text \<open>
  The values that travel through the helpers are either strings produced by the SDKs or
  whatever a decoded JSON error body holds at a key, so the model keeps the shape of decoded
  JSON: \<^verbatim>\<open>None\<close>, booleans, numbers, strings, lists and dictionaries. A dictionary is an
  association list read with \<open>map_of\<close>. Fractional numbers are not told apart from integers:
  the code never looks inside a number.
\<close>

datatype pyval =
    PyNone
  | PyBool bool
  | PyNum int
  | PyStr string
  | PyList "pyval list"
  | PyDict "(string \<times> pyval) list"

subsection \<open>Exceptions\<close>

text \<open>
  \<^verbatim>\<open>exc.response\<close> of a Google API error is the HTTP response of the failed call when
  there is one; \<^verbatim>\<open>.json()\<close> on it decodes the body or raises when the body is not JSON.
  \<open>None\<close> stands for an error that carries no response object.
\<close>

datatype http_response = JsonBody pyval | NotJson

record google_api_error =
  gexc_response :: "http_response option"
  gexc_repr :: string

text \<open>
  \<^verbatim>\<open>exc.body\<close> of an OpenAI API error is the decoded response body, or \<^verbatim>\<open>None\<close> when
  the call produced no body (a connection error, a timeout).
\<close>

record openai_api_error =
  aexc_body :: pyval
  aexc_repr :: string

text \<open>
  The exceptions of the model. Every one of them derives from \<^verbatim>\<open>Exception\<close>, and
  \<open>OtherException\<close> stands for any further class that does. Exceptions outside that
  hierarchy (\<^verbatim>\<open>KeyboardInterrupt\<close>, \<^verbatim>\<open>SystemExit\<close>), which \<^verbatim>\<open>except Exception\<close> does
  not catch, are not modelled. \<^verbatim>\<open>ValueError\<close> is what reading \<^verbatim>\<open>response.text\<close> of a
  Gemini response without a text part raises, \<^verbatim>\<open>IndexError\<close> what \<^verbatim>\<open>choices[0]\<close> of an
  Azure OpenAI response without choices raises.
\<close>

datatype exn =
    LLMProviderNotFoundException
  | NoResponseException
  | UnboundLocalError
  | AttributeError
  | JSONDecodeError
  | ValidationError
  | ValueError
  | IndexError
  | GoogleAPIError google_api_error
  | OpenAIAPIError openai_api_error
  | OtherException string

text \<open>
  The class attributes \<^verbatim>\<open>message\<close> of the two exception classes of \<^verbatim>\<open>exceptions.py\<close>.
  \<^verbatim>\<open>LLM_PROVIDERS\<close> is defined in \<^verbatim>\<open>constants.py\<close>; its rendering inside the f-string is
  taken as a parameter.
\<close>

definition LLMProviderNotFoundException_message :: "string \<Rightarrow> string" where
  "LLMProviderNotFoundException_message llm_providers =
     ''The LLM provider must be one of the following: '' @ llm_providers"

definition NoResponseException_message :: string where
  "NoResponseException_message = ''The LLM did not return a response.''"

text \<open>
  The attribute \<^verbatim>\<open>message\<close> that an exception object of one of these two classes
  carries; \<^verbatim>\<open>exceptions.py\<close> defines it for no other class.
\<close>

definition class_message :: "string \<Rightarrow> exn \<Rightarrow> string option" where
  "class_message llm_providers exc =
     (case exc of
        LLMProviderNotFoundException \<Rightarrow>
          Some (LLMProviderNotFoundException_message llm_providers)
      | NoResponseException \<Rightarrow> Some NoResponseException_message
      | _ \<Rightarrow> None)"

subsection \<open>Settings, SDK configuration and the process state\<close>

record SecretVariables =
  aether_api_key :: string
  aether_proxy_endpoint :: string
  azure_api_key :: string
  azure_endpoint :: string
  azure_openai_api_version :: string
  azure_provider_deployment :: string
  google_api_key :: string

text \<open>The keyword arguments of \<^verbatim>\<open>genai.configure\<close> and of the \<^verbatim>\<open>AzureOpenAI\<close> constructor.\<close>

record genai_config =
  cfg_api_key :: string
  cfg_transport :: "string option"
  cfg_api_endpoint :: "string option"

record azure_client =
  client_api_key :: string
  client_azure_endpoint :: string
  client_api_version :: string

datatype event =
    Genai_configure genai_config
  | AzureOpenAI_init azure_client
  | Generate_content string string
  | Chat_completions_create string string
  | Logger_info string
  | Logger_exception exn
  | St_error exn

text \<open>
  The module-level state: the settings object \<^verbatim>\<open>secret_variables\<close>, the configuration that
  \<^verbatim>\<open>genai.configure\<close> stores inside the Gemini SDK (\<open>None\<close> before the first call), and
  the trace of outward calls made so far.
\<close>

record process =
  secret_variables :: SecretVariables
  genai_client_config :: "genai_config option"
  trace :: "event list"

definition emit :: "event \<Rightarrow> process \<Rightarrow> process" where
  "emit ev s = s\<lparr>trace := trace s @ [ev]\<rparr>"

text \<open>
  Lines 22 to 30 of \<^verbatim>\<open>run.py\<close>: the settings are read from the environment once, when the
  module is loaded. Every field is a required \<^verbatim>\<open>str\<close> of the pydantic model, so a variable
  that is not set (\<^verbatim>\<open>os.getenv\<close> gives \<^verbatim>\<open>None\<close>) fails validation; only the API version
  has a default.
\<close>

definition load_secret_variables :: "(string \<rightharpoonup> string) \<Rightarrow> exn + SecretVariables" where
  "load_secret_variables env =
     (case (env ''AETHER_API_KEY'', env ''AETHER_PROXY_ENDPOINT'', env ''AZURE_API_KEY'',
            env ''AZURE_ENDPOINT'', env ''AZURE_PROVIDER_MODEL'', env ''GOOGLE_API_KEY'') of
        (Some ak, Some ae, Some zk, Some ze, Some zd, Some gk) \<Rightarrow>
          Inr \<lparr>aether_api_key = ak, aether_proxy_endpoint = ae, azure_api_key = zk,
               azure_endpoint = ze,
               azure_openai_api_version =
                 (case env ''AZURE_OPENAI_API_VERSION'' of None \<Rightarrow> ''2024-02-01'' | Some v \<Rightarrow> v),
               azure_provider_deployment = zd, google_api_key = gk\<rparr>
      | _ \<Rightarrow> Inl ValidationError)"

definition init_process :: "SecretVariables \<Rightarrow> process" where
  "init_process sv = \<lparr>secret_variables = sv, genai_client_config = None, trace = []\<rparr>"

subsection \<open>The backends\<close>

datatype 'a outcome = Returns 'a | Raises exn

text \<open>
  \<open>generate_content\<close> stands for \<^verbatim>\<open>model.generate_content(prompt)\<close> followed by reading
  \<^verbatim>\<open>response.text\<close>, a \<^verbatim>\<open>str\<close> property of the SDK that raises when the response has
  no text part. \<open>chat_completions_create\<close> stands for \<^verbatim>\<open>client.chat.completions.create\<close>
  followed by reading \<^verbatim>\<open>response.choices[0].message.content\<close>, which the SDK types as an
  optional string.
\<close>

record backend =
  generate_content :: "genai_config \<Rightarrow> string \<Rightarrow> string \<Rightarrow> string outcome"
  chat_completions_create :: "azure_client \<Rightarrow> string \<Rightarrow> string \<Rightarrow> string option outcome"

subsection \<open>Error normalisers (\<^verbatim>\<open>utils.py\<close>)\<close>

text \<open>
  \<^verbatim>\<open>x.get(key, default)\<close>: defined on dictionaries only; on any other value the attribute
  lookup raises \<^verbatim>\<open>AttributeError\<close>. A key that is present wins over the default whatever
  its value is, \<^verbatim>\<open>None\<close> included.
\<close>

definition py_get :: "pyval \<Rightarrow> string \<Rightarrow> pyval \<Rightarrow> exn + pyval" where
  "py_get x key dflt =
     (case x of
        PyDict d \<Rightarrow> (case map_of d key of None \<Rightarrow> Inr dflt | Some v \<Rightarrow> Inr v)
      | _ \<Rightarrow> Inl AttributeError)"

definition handle_gemini_exception :: "google_api_error \<Rightarrow> exn + pyval" where
  "handle_gemini_exception exc =
     (case gexc_response exc of
        None \<Rightarrow> Inl AttributeError
      | Some NotJson \<Rightarrow> Inl JSONDecodeError
      | Some (JsonBody body) \<Rightarrow>
          (case py_get body ''error'' (PyDict []) of
             Inl e \<Rightarrow> Inl e
           | Inr err \<Rightarrow> py_get err ''message'' (PyStr (gexc_repr exc))))"

definition handle_azure_exception :: "openai_api_error \<Rightarrow> exn + pyval" where
  "handle_azure_exception exc = py_get (aexc_body exc) ''message'' (PyStr (aexc_repr exc))"

subsection \<open>The per-provider helpers (\<^verbatim>\<open>run.py\<close>)\<close>

definition google_config :: "SecretVariables \<Rightarrow> bool \<Rightarrow> genai_config" where
  "google_config sv is_enterprise_mode =
     (if is_enterprise_mode
      then \<lparr>cfg_api_key = aether_api_key sv, cfg_transport = Some ''rest'',
            cfg_api_endpoint = Some (aether_proxy_endpoint sv)\<rparr>
      else \<lparr>cfg_api_key = google_api_key sv, cfg_transport = None, cfg_api_endpoint = None\<rparr>)"

definition azure_config :: "SecretVariables \<Rightarrow> bool \<Rightarrow> azure_client" where
  "azure_config sv is_enterprise_mode =
     (if is_enterprise_mode
      then \<lparr>client_api_key = aether_api_key sv,
            client_azure_endpoint = aether_proxy_endpoint sv,
            client_api_version = azure_openai_api_version sv\<rparr>
      else \<lparr>client_api_key = azure_api_key sv,
            client_azure_endpoint = azure_endpoint sv,
            client_api_version = azure_openai_api_version sv\<rparr>)"

text \<open>
  \<^verbatim>\<open>_google_generate\<close>. \<^verbatim>\<open>genai.configure\<close> replaces the configuration held by the SDK;
  the model object created next sends its request with that configuration. Only a
  \<^verbatim>\<open>GoogleAPIError\<close> is caught; an exception raised by the normaliser inside the handler
  leaves the helper like any other.
\<close>

definition google_generate ::
  "backend \<Rightarrow> string \<Rightarrow> string \<Rightarrow> bool \<Rightarrow> process \<Rightarrow> (exn + pyval) \<times> process" where
  "google_generate B prompt model_name is_enterprise_mode s =
     (let cfg = google_config (secret_variables s) is_enterprise_mode;
          s1 = emit (Genai_configure cfg) (s\<lparr>genai_client_config := Some cfg\<rparr>);
          s2 = emit (Generate_content model_name prompt) s1
      in case generate_content B cfg model_name prompt of
           Returns text \<Rightarrow> (Inr (PyStr text), emit (Logger_info text) s2)
         | Raises e \<Rightarrow>
             (case e of
                GoogleAPIError g \<Rightarrow>
                  (handle_gemini_exception g, emit (Logger_exception e) s2)
              | _ \<Rightarrow> (Inl e, s2)))"

text \<open>\<^verbatim>\<open>_azure_generate\<close>: a fresh client per call; only an OpenAI \<^verbatim>\<open>APIError\<close> is caught.\<close>

definition azure_generate ::
  "backend \<Rightarrow> string \<Rightarrow> string \<Rightarrow> bool \<Rightarrow> process \<Rightarrow> (exn + pyval) \<times> process" where
  "azure_generate B prompt model_name is_enterprise_mode s =
     (let client = azure_config (secret_variables s) is_enterprise_mode;
          s1 = emit (AzureOpenAI_init client) s;
          s2 = emit (Chat_completions_create model_name prompt) s1
      in case chat_completions_create B client model_name prompt of
           Returns content \<Rightarrow>
             (Inr (case content of None \<Rightarrow> PyNone | Some text \<Rightarrow> PyStr text), s2)
         | Raises e \<Rightarrow>
             (case e of
                OpenAIAPIError a \<Rightarrow>
                  (handle_azure_exception a, emit (Logger_exception e) s2)
              | _ \<Rightarrow> (Inl e, s2)))"

subsection \<open>\<^verbatim>\<open>invoke\<close>\<close>

definition empty_prompt_message :: string where
  "empty_prompt_message = ''Your prompt is empty; please re-type your prompt and try again!''"

definition generic_error_message :: string where
  "generic_error_message = ''An error occurred while processing the request.''"

text \<open>
  The provider dispatch of lines 157 to 168. The local variable \<^verbatim>\<open>response\<close> is bound by
  one of the two branches; with any other selector neither branch runs and it stays
  unbound (\<open>Inr None\<close>).
\<close>

definition dispatch ::
  "backend \<Rightarrow> string \<Rightarrow> string \<Rightarrow> string \<Rightarrow> bool \<Rightarrow> process
     \<Rightarrow> (exn + pyval option) \<times> process" where
  "dispatch B prompt llm_provider model_name is_enterprise_mode s =
     (if llm_provider = ''google-generativeai''
      then (case google_generate B prompt model_name is_enterprise_mode s of
              (r, s') \<Rightarrow> (map_sum id Some r, s'))
      else if llm_provider = ''azure-openai''
      then (case azure_generate B prompt model_name is_enterprise_mode s of
              (r, s') \<Rightarrow> (map_sum id Some r, s'))
      else (Inr None, s))"

text \<open>
  The body of the \<^verbatim>\<open>try\<close> block, lines 156 to 175. Reading the unbound \<^verbatim>\<open>response\<close> in
  \<^verbatim>\<open>if response is None\<close> raises \<^verbatim>\<open>UnboundLocalError\<close>.
\<close>

definition invoke_try ::
  "backend \<Rightarrow> string \<Rightarrow> string \<Rightarrow> string \<Rightarrow> bool \<Rightarrow> process
     \<Rightarrow> (exn + pyval) \<times> process" where
  "invoke_try B prompt llm_provider model_name is_enterprise_mode s =
     (if prompt \<noteq> []
      then (case dispatch B prompt llm_provider model_name is_enterprise_mode s of
              (Inl e, s') \<Rightarrow> (Inl e, s')
            | (Inr None, s') \<Rightarrow> (Inl UnboundLocalError, s')
            | (Inr (Some response), s') \<Rightarrow>
                (if response = PyNone then (Inl NoResponseException, s')
                 else (Inr response, s')))
      else (Inr (PyStr empty_prompt_message), s))"

text \<open>
  \<^verbatim>\<open>invoke\<close>: the \<^verbatim>\<open>try\<close> block under \<^verbatim>\<open>except Exception\<close>, which reports the exception
  with \<^verbatim>\<open>st.error\<close> and returns the generic message. The calls of \<^verbatim>\<open>st.error\<close> and of
  the logger are taken to return.
\<close>

definition invoke ::
  "backend \<Rightarrow> string \<Rightarrow> string \<Rightarrow> string \<Rightarrow> bool \<Rightarrow> process \<Rightarrow> pyval \<times> process" where
  "invoke B prompt llm_provider model_name is_enterprise_mode s =
     (case invoke_try B prompt llm_provider model_name is_enterprise_mode s of
        (Inl e, s') \<Rightarrow> (PyStr generic_error_message, emit (St_error e) s')
      | (Inr response, s') \<Rightarrow> (response, s'))"

subsection \<open>The chat turn (\<^verbatim>\<open>run.py\<close>, lines 216 to 249)\<close>

text \<open>
  The Streamlit session state the turn reads and writes. \<^verbatim>\<open>st.chat_input\<close> gives
  \<^verbatim>\<open>None\<close> or a non-empty string, so the turn runs only on a non-empty prompt. The
  rendering calls (\<^verbatim>\<open>st.chat_message\<close>, \<^verbatim>\<open>st.markdown\<close>, \<^verbatim>\<open>st.spinner\<close>) are not
  modelled. The selector check raises outside any \<^verbatim>\<open>try\<close>, before \<^verbatim>\<open>invoke\<close> is called.
\<close>

record session =
  messages :: "(string \<times> pyval) list"
  is_enterprise_mode :: bool
  llm_provider :: string
  model_selected :: string

definition chat_turn ::
  "backend \<Rightarrow> string \<Rightarrow> session \<Rightarrow> process \<Rightarrow> (exn + session) \<times> process" where
  "chat_turn B prompt ss s =
     (if prompt \<noteq> []
      then (let ss1 = ss\<lparr>messages := messages ss @ [(''user'', PyStr prompt)]\<rparr>;
                provider = llm_provider ss1
            in if provider \<noteq> ''google-generativeai'' \<and> provider \<noteq> ''azure-openai''
               then (Inl LLMProviderNotFoundException, s)
               else (let model_name =
                           (if provider = ''google-generativeai'' then model_selected ss1
                            else azure_provider_deployment (secret_variables s))
                     in case invoke B prompt provider model_name (is_enterprise_mode ss1) s of
                          (response, s') \<Rightarrow>
                            (Inr (ss1\<lparr>messages := messages ss1 @ [(''assistant'', response)]\<rparr>),
                             s')))
      else (Inr ss, s))"

text \<open>A run of the process: one call of \<^verbatim>\<open>invoke\<close> after the other, on the same state.\<close>

record request =
  req_prompt :: string
  req_provider :: string
  req_model_name :: string
  req_enterprise :: bool

fun invoke_all :: "backend \<Rightarrow> request list \<Rightarrow> process \<Rightarrow> pyval list \<times> process" where
  "invoke_all B [] s = ([], s)"
| "invoke_all B (r # rs) s =
     (case invoke B (req_prompt r) (req_provider r) (req_model_name r) (req_enterprise r) s of
        (v, s') \<Rightarrow> (case invoke_all B rs s' of (vs, s'') \<Rightarrow> (v # vs, s'')))"

subsection \<open>Vocabulary of the statements\<close>

text \<open>
  The events by which a helper reaches an SDK: configuring or constructing a client (this
  is where the settings are read) and sending the request.
\<close>

definition is_outward_call :: "event \<Rightarrow> bool" where
  "is_outward_call ev =
     (case ev of
        Genai_configure _ \<Rightarrow> True
      | AzureOpenAI_init _ \<Rightarrow> True
      | Generate_content _ _ \<Rightarrow> True
      | Chat_completions_create _ _ \<Rightarrow> True
      | _ \<Rightarrow> False)"

text \<open>The events a call appended to the trace: those of \<open>s'\<close> beyond those of \<open>s\<close>.\<close>

definition new_events :: "process \<Rightarrow> process \<Rightarrow> event list" where
  "new_events s s' = drop (length (trace s)) (trace s')"

text \<open>Concrete inputs: a settings object, stub backends and provider errors.\<close>

definition example_secrets :: SecretVariables where
  "example_secrets =
     \<lparr>aether_api_key = ''ak'', aether_proxy_endpoint = ''https://proxy'',
      azure_api_key = ''zk'', azure_endpoint = ''https://azure'',
      azure_openai_api_version = ''2024-02-01'', azure_provider_deployment = ''gpt'',
      google_api_key = ''gk''\<rparr>"

definition stub_backend :: "string outcome \<Rightarrow> string option outcome \<Rightarrow> backend" where
  "stub_backend g a =
     \<lparr>generate_content = (\<lambda>_ _ _. g), chat_completions_create = (\<lambda>_ _ _. a)\<rparr>"

definition gemini_error :: "pyval \<Rightarrow> google_api_error" where
  "gemini_error body =
     \<lparr>gexc_response = Some (JsonBody body), gexc_repr = ''GoogleAPIError()''\<rparr>"

definition openai_error :: "pyval \<Rightarrow> openai_api_error" where
  "openai_error body = \<lparr>aexc_body = body, aexc_repr = ''APIError()''\<rparr>"

definition quota_body :: pyval where
  "quota_body = PyDict [(''error'', PyDict [(''message'', PyStr ''quota exceeded'')])]"

definition null_message_body :: pyval where
  "null_message_body = PyDict [(''error'', PyDict [(''message'', PyNone)])]"

definition numeric_message_body :: pyval where
  "numeric_message_body = PyDict [(''error'', PyDict [(''message'', PyNum 429)])]"

definition rate_limit_body :: pyval where
  "rate_limit_body = PyDict [(''message'', PyStr ''rate limit reached'')]"

section \<open>Properties\<close>

subsection \<open>The settings object is only read\<close>

lemma google_generate_secrets:
  "secret_variables (snd (google_generate B p m e s)) = secret_variables s"
  by (simp add: google_generate_def Let_def emit_def split: outcome.splits exn.splits)

lemma azure_generate_secrets:
  "secret_variables (snd (azure_generate B p m e s)) = secret_variables s"
  by (simp add: azure_generate_def Let_def emit_def split: outcome.splits exn.splits)

lemma dispatch_secrets:
  "secret_variables (snd (dispatch B p l m e s)) = secret_variables s"
  using google_generate_secrets [of B p m e s] azure_generate_secrets [of B p m e s]
  by (cases "google_generate B p m e s"; cases "azure_generate B p m e s")
     (simp add: dispatch_def)

lemma invoke_try_secrets:
  "secret_variables (snd (invoke_try B p l m e s)) = secret_variables s"
  using dispatch_secrets [of B p l m e s]
  by (cases "dispatch B p l m e s")
     (simp add: invoke_try_def split: sum.splits option.splits)

lemma invoke_secrets:
  "secret_variables (snd (invoke B p l m e s)) = secret_variables s"
  using invoke_try_secrets [of B p l m e s]
  by (cases "invoke_try B p l m e s")
     (simp add: invoke_def emit_def split: sum.splits)

lemma invoke_all_secrets:
  "secret_variables (snd (invoke_all B rs s)) = secret_variables s"
  by (induction rs arbitrary: s) (simp_all add: case_prod_beta invoke_secrets)

lemma chat_turn_secrets:
  "secret_variables (snd (chat_turn B p ss s)) = secret_variables s"
  by (simp add: chat_turn_def Let_def case_prod_beta invoke_secrets)

text \<open>
  Claim C9. The settings object is built once, when the module is loaded, and nothing
  writes to it afterwards: each of the two provider helpers, \<^verbatim>\<open>invoke\<close> and a whole chat
  turn leave every field of \<^verbatim>\<open>secret_variables\<close> as it was, and after any sequence of
  invocations started from the initial process state the settings are still the ones it was
  built with. (The Gemini SDK configuration and the trace, the other two parts of the state,
  do change.)
\<close>

theorem secret_variables_never_mutated:
  "secret_variables (snd (google_generate B p m e s)) = secret_variables s \<and>
   secret_variables (snd (azure_generate B p m e s)) = secret_variables s \<and>
   secret_variables (snd (invoke B p l m e s)) = secret_variables s \<and>
   secret_variables (snd (chat_turn B p ss s)) = secret_variables s \<and>
   secret_variables (snd (invoke_all B rs (init_process sv))) = sv"
  by (simp add: google_generate_secrets azure_generate_secrets invoke_secrets
        chat_turn_secrets invoke_all_secrets init_process_def)

subsection \<open>What a call appends to the trace\<close>

lemma new_events_append: "trace s' = trace s @ evs \<Longrightarrow> new_events s s' = evs"
  by (simp add: new_events_def)

lemma google_generate_trace:
  "\<exists>rest. trace (snd (google_generate B p m e s)) =
     trace s @ Genai_configure (google_config (secret_variables s) e) #
       Generate_content m p # rest"
  by (simp add: google_generate_def Let_def emit_def split: outcome.splits exn.splits)

lemma azure_generate_trace:
  "\<exists>rest. trace (snd (azure_generate B p m e s)) =
     trace s @ AzureOpenAI_init (azure_config (secret_variables s) e) #
       Chat_completions_create m p # rest"
  by (simp add: azure_generate_def Let_def emit_def split: outcome.splits exn.splits)

lemma invoke_try_fst:
  "fst (invoke_try B p l m e s) =
     (if p \<noteq> [] then
        (case fst (dispatch B p l m e s) of
           Inl exc \<Rightarrow> Inl exc
         | Inr None \<Rightarrow> Inl UnboundLocalError
         | Inr (Some r) \<Rightarrow> if r = PyNone then Inl NoResponseException else Inr r)
      else Inr (PyStr empty_prompt_message))"
  by (cases "dispatch B p l m e s")
     (simp add: invoke_try_def split: sum.splits option.splits)

lemma invoke_try_snd:
  "snd (invoke_try B p l m e s) = (if p \<noteq> [] then snd (dispatch B p l m e s) else s)"
  by (cases "dispatch B p l m e s")
     (simp add: invoke_try_def split: sum.splits option.splits)

lemma invoke_fst:
  "fst (invoke B p l m e s) =
     (case fst (invoke_try B p l m e s) of
        Inl exc \<Rightarrow> PyStr generic_error_message | Inr r \<Rightarrow> r)"
  by (cases "invoke_try B p l m e s") (simp add: invoke_def split: sum.splits)

lemma invoke_trace:
  "trace (snd (invoke B p l m e s)) =
     trace (snd (invoke_try B p l m e s)) @
       (case fst (invoke_try B p l m e s) of Inl exc \<Rightarrow> [St_error exc] | Inr r \<Rightarrow> [])"
  by (cases "invoke_try B p l m e s") (simp add: invoke_def emit_def split: sum.splits)

subsection \<open>The result depends on the request, the settings and the backend only\<close>

lemma google_generate_same:
  assumes "secret_variables s1 = secret_variables s2"
  shows "fst (google_generate B p m e s1) = fst (google_generate B p m e s2) \<and>
         (\<exists>evs. trace (snd (google_generate B p m e s1)) = trace s1 @ evs \<and>
                trace (snd (google_generate B p m e s2)) = trace s2 @ evs)"
  using assms
  by (simp add: google_generate_def Let_def emit_def split: outcome.splits exn.splits)

lemma azure_generate_same:
  assumes "secret_variables s1 = secret_variables s2"
  shows "fst (azure_generate B p m e s1) = fst (azure_generate B p m e s2) \<and>
         (\<exists>evs. trace (snd (azure_generate B p m e s1)) = trace s1 @ evs \<and>
                trace (snd (azure_generate B p m e s2)) = trace s2 @ evs)"
  using assms
  by (simp add: azure_generate_def Let_def emit_def split: outcome.splits exn.splits)

lemma dispatch_same:
  assumes "secret_variables s1 = secret_variables s2"
  shows "fst (dispatch B p l m e s1) = fst (dispatch B p l m e s2) \<and>
         (\<exists>evs. trace (snd (dispatch B p l m e s1)) = trace s1 @ evs \<and>
                trace (snd (dispatch B p l m e s2)) = trace s2 @ evs)"
  using google_generate_same [OF assms, of B p m e] azure_generate_same [OF assms, of B p m e]
  by (simp add: dispatch_def case_prod_beta)

lemma invoke_try_same:
  assumes "secret_variables s1 = secret_variables s2"
  shows "fst (invoke_try B p l m e s1) = fst (invoke_try B p l m e s2) \<and>
         (\<exists>evs. trace (snd (invoke_try B p l m e s1)) = trace s1 @ evs \<and>
                trace (snd (invoke_try B p l m e s2)) = trace s2 @ evs)"
  using dispatch_same [OF assms, of B p l m e]
  by (simp add: invoke_try_fst invoke_try_snd)

lemma invoke_same:
  assumes "secret_variables s1 = secret_variables s2"
  shows "fst (invoke B p l m e s1) = fst (invoke B p l m e s2) \<and>
         (\<exists>evs. trace (snd (invoke B p l m e s1)) = trace s1 @ evs \<and>
                trace (snd (invoke B p l m e s2)) = trace s2 @ evs)"
proof -
  from invoke_try_same [OF assms, of B p l m e]
  obtain evs where f: "fst (invoke_try B p l m e s1) = fst (invoke_try B p l m e s2)"
    and t1: "trace (snd (invoke_try B p l m e s1)) = trace s1 @ evs"
    and t2: "trace (snd (invoke_try B p l m e s2)) = trace s2 @ evs"
    by blast
  show ?thesis
    by (simp add: invoke_fst invoke_trace f t1 t2)
qed

text \<open>
  Claim C8. Calling \<^verbatim>\<open>invoke\<close> again with the same request and the same backend gives the
  same result, whatever was invoked in between: after any sequence \<open>rs\<close> of earlier
  invocations (the same request among them) the value returned and the outward calls made
  are those of the call on the original state. The state the earlier calls leave behind,
  the Gemini SDK configuration and the trace, has no influence.
\<close>

theorem invoke_deterministic:
  "fst (invoke B p l m e (snd (invoke_all B rs s))) = fst (invoke B p l m e s) \<and>
   new_events (snd (invoke_all B rs s)) (snd (invoke B p l m e (snd (invoke_all B rs s)))) =
     new_events s (snd (invoke B p l m e s))"
proof -
  let ?s' = "snd (invoke_all B rs s)"
  have "secret_variables ?s' = secret_variables s"
    by (rule invoke_all_secrets)
  from invoke_same [OF this, of B p l m e]
  obtain evs where f: "fst (invoke B p l m e ?s') = fst (invoke B p l m e s)"
    and t1: "trace (snd (invoke B p l m e ?s')) = trace ?s' @ evs"
    and t2: "trace (snd (invoke B p l m e s)) = trace s @ evs"
    by blast
  show ?thesis
    using f new_events_append [OF t1] new_events_append [OF t2] by simp
qed

subsection \<open>The empty prompt\<close>

text \<open>
  Claim C3, as stated: on an empty prompt \<^verbatim>\<open>invoke\<close> returns the string
  \<^verbatim>\<open>prompt is empty, please retry\<close>. The code returns another literal.
\<close>

theorem invoke_empty_prompt_counterexample:
  "fst (invoke (stub_backend (Returns ''hello'') (Returns (Some ''hello''))) []
          ''google-generativeai'' ''gemini-pro'' False (init_process example_secrets))
     \<noteq> PyStr ''prompt is empty, please retry''"
  by (simp add: invoke_def invoke_try_def empty_prompt_message_def)

text \<open>
  Claim C3, amended. On an empty prompt \<^verbatim>\<open>invoke\<close> returns the fixed string
  \<^verbatim>\<open>Your prompt is empty; please re-type your prompt and try again!\<close> as an ordinary
  result, whatever the provider selector, the model name and the mode are, and leaves the
  process state as it was: no settings are read, no SDK is configured, no backend is
  called, nothing is logged.
\<close>

theorem invoke_empty_prompt:
  "invoke B [] l m e s =
     (PyStr ''Your prompt is empty; please re-type your prompt and try again!'', s)"
  by (simp add: invoke_def invoke_try_def empty_prompt_message_def)

subsection \<open>What the helpers and \<^verbatim>\<open>invoke\<close> return\<close>

lemma google_generate_fst:
  "fst (google_generate B p m e s) =
     (case generate_content B (google_config (secret_variables s) e) m p of
        Returns text \<Rightarrow> Inr (PyStr text)
      | Raises exc \<Rightarrow>
          (case exc of GoogleAPIError g \<Rightarrow> handle_gemini_exception g | _ \<Rightarrow> Inl exc))"
  by (simp add: google_generate_def Let_def split: outcome.splits exn.splits)

lemma azure_generate_fst:
  "fst (azure_generate B p m e s) =
     (case chat_completions_create B (azure_config (secret_variables s) e) m p of
        Returns content \<Rightarrow> Inr (case content of None \<Rightarrow> PyNone | Some text \<Rightarrow> PyStr text)
      | Raises exc \<Rightarrow>
          (case exc of OpenAIAPIError a \<Rightarrow> handle_azure_exception a | _ \<Rightarrow> Inl exc))"
  by (simp add: azure_generate_def Let_def split: outcome.splits exn.splits)

lemma dispatch_fst:
  "fst (dispatch B p l m e s) =
     (if l = ''google-generativeai'' then map_sum id Some (fst (google_generate B p m e s))
      else if l = ''azure-openai'' then map_sum id Some (fst (azure_generate B p m e s))
      else Inr None)"
  by (simp add: dispatch_def case_prod_beta)

lemma dispatch_snd:
  "snd (dispatch B p l m e s) =
     (if l = ''google-generativeai'' then snd (google_generate B p m e s)
      else if l = ''azure-openai'' then snd (azure_generate B p m e s)
      else s)"
  by (simp add: dispatch_def case_prod_beta)

lemma invoke_unfold:
  "invoke B p l m e s =
     (case fst (invoke_try B p l m e s) of
        Inl exc \<Rightarrow> (PyStr generic_error_message,
                     emit (St_error exc) (snd (invoke_try B p l m e s)))
      | Inr r \<Rightarrow> (r, snd (invoke_try B p l m e s)))"
  by (cases "invoke_try B p l m e s") (simp add: invoke_def split: sum.splits)

lemma map_sum_Some_Inr: "map_sum id Some x = Inr (Some v) \<longleftrightarrow> x = Inr v"
  by (cases x) auto

text \<open>
  Claim C7. With a non-empty prompt and one of the two known providers, when the backend
  call returns text, \<^verbatim>\<open>invoke\<close> returns exactly that text: \<^verbatim>\<open>response.text\<close> for
  Gemini, \<^verbatim>\<open>response.choices[0].message.content\<close> for Azure OpenAI.
\<close>

theorem invoke_returns_backend_text:
  assumes "p \<noteq> []"
    and "(l = ''google-generativeai'' \<and>
            generate_content B (google_config (secret_variables s) e) m p = Returns t) \<or>
         (l = ''azure-openai'' \<and>
            chat_completions_create B (azure_config (secret_variables s) e) m p
              = Returns (Some t))"
  shows "fst (invoke B p l m e s) = PyStr t"
  using assms
  by (auto simp add: invoke_fst invoke_try_fst dispatch_fst google_generate_fst
        azure_generate_fst)

text \<open>The stub Gemini backend that returns \<^verbatim>\<open>hello\<close>: \<^verbatim>\<open>invoke\<close> returns \<^verbatim>\<open>hello\<close>.\<close>

theorem invoke_returns_backend_text_witness:
  "''hi'' \<noteq> [] \<and>
   generate_content (stub_backend (Returns ''hello'') (Returns None))
      (google_config (secret_variables (init_process example_secrets)) False)
      ''gemini-pro'' ''hi'' = Returns ''hello'' \<and>
   fst (invoke (stub_backend (Returns ''hello'') (Returns None)) ''hi''
          ''google-generativeai'' ''gemini-pro'' False (init_process example_secrets))
     = PyStr ''hello''"
  using invoke_returns_backend_text
    [of "''hi''" "''google-generativeai''" "stub_backend (Returns ''hello'') (Returns None)"
        "init_process example_secrets" False "''gemini-pro''" "''hello''"]
  by (simp add: stub_backend_def)

text \<open>
  What the \<^verbatim>\<open>try\<close> block of \<^verbatim>\<open>invoke\<close> gives when the backend raises an exception that
  the helper does not catch: the exception itself, after the client configuration and the
  request.
\<close>

lemma invoke_try_trace_google:
  assumes "p \<noteq> []"
    and "generate_content B (google_config (secret_variables s) e) m p = Raises exc"
    and "\<forall>g. exc \<noteq> GoogleAPIError g"
  shows "invoke_try B p ''google-generativeai'' m e s =
           (Inl exc,
            emit (Generate_content m p)
              (emit (Genai_configure (google_config (secret_variables s) e))
                 (s\<lparr>genai_client_config := Some (google_config (secret_variables s) e)\<rparr>)))"
  using assms
  by (cases exc) (simp_all add: invoke_try_def dispatch_def google_generate_def Let_def)

lemma invoke_try_trace_azure:
  assumes "p \<noteq> []"
    and "chat_completions_create B (azure_config (secret_variables s) e) m p = Raises exc"
    and "\<forall>a. exc \<noteq> OpenAIAPIError a"
  shows "invoke_try B p ''azure-openai'' m e s =
           (Inl exc,
            emit (Chat_completions_create m p)
              (emit (AzureOpenAI_init (azure_config (secret_variables s) e)) s))"
  using assms
  by (cases exc) (simp_all add: invoke_try_def dispatch_def azure_generate_def Let_def)

text \<open>
  Claim C5, as stated: whenever the backend call goes through but brings no usable text,
  \<^verbatim>\<open>invoke\<close> surfaces the no-response failure. A Gemini response without a text part
  refutes it: reading \<^verbatim>\<open>response.text\<close> raises \<^verbatim>\<open>ValueError\<close>, which is not a
  \<^verbatim>\<open>GoogleAPIError\<close>, so it leaves the helper and the failure inside \<^verbatim>\<open>invoke\<close> is
  \<^verbatim>\<open>ValueError\<close>, not \<^verbatim>\<open>NoResponseException\<close>. An Azure OpenAI response without
  choices gives \<^verbatim>\<open>IndexError\<close> in the same way.
\<close>

theorem invoke_no_usable_text_counterexample:
  "fst (invoke_try (stub_backend (Raises ValueError) (Returns None)) ''hi''
          ''google-generativeai'' ''gemini-pro'' False (init_process example_secrets))
     = Inl ValueError \<and>
   fst (invoke_try (stub_backend (Raises ValueError) (Returns None)) ''hi''
          ''google-generativeai'' ''gemini-pro'' False (init_process example_secrets))
     \<noteq> Inl NoResponseException \<and>
   fst (invoke_try (stub_backend (Returns ''hello'') (Raises IndexError)) ''hi''
          ''azure-openai'' ''gpt'' False (init_process example_secrets))
     = Inl IndexError"
  by (simp add: invoke_try_fst dispatch_fst google_generate_fst azure_generate_fst
        stub_backend_def)

text \<open>
  Claim C5, amended. With a non-empty prompt: when the Azure OpenAI call goes through and
  the message of the first choice has no content (\<^verbatim>\<open>None\<close>), the \<^verbatim>\<open>try\<close> block of
  \<^verbatim>\<open>invoke\<close> raises \<^verbatim>\<open>NoResponseException\<close>, a failure kind of its own. When a Gemini
  response has no text part, or an Azure OpenAI response has no choices, the failure is the
  exception that reading the response raises (\<^verbatim>\<open>ValueError\<close>, \<^verbatim>\<open>IndexError\<close>) and not
  \<^verbatim>\<open>NoResponseException\<close>. In all three cases \<^verbatim>\<open>invoke\<close> reports the exception with
  \<^verbatim>\<open>st.error\<close>, after the client configuration and the one request, and returns the
  string that tells the user the request failed.
\<close>

theorem invoke_no_usable_text:
  assumes "p \<noteq> []"
  shows "(chat_completions_create B (azure_config (secret_variables s) e) m p = Returns None
            \<longrightarrow>
          fst (invoke_try B p ''azure-openai'' m e s) = Inl NoResponseException \<and>
          fst (invoke B p ''azure-openai'' m e s)
            = PyStr ''An error occurred while processing the request.'' \<and>
          new_events s (snd (invoke B p ''azure-openai'' m e s)) =
            [AzureOpenAI_init (azure_config (secret_variables s) e),
             Chat_completions_create m p, St_error NoResponseException]) \<and>
         (generate_content B (google_config (secret_variables s) e) m p = Raises ValueError
            \<longrightarrow>
          fst (invoke_try B p ''google-generativeai'' m e s) = Inl ValueError \<and>
          fst (invoke B p ''google-generativeai'' m e s)
            = PyStr ''An error occurred while processing the request.'' \<and>
          new_events s (snd (invoke B p ''google-generativeai'' m e s)) =
            [Genai_configure (google_config (secret_variables s) e),
             Generate_content m p, St_error ValueError]) \<and>
         (chat_completions_create B2 (azure_config (secret_variables s) e) m p
            = Raises IndexError \<longrightarrow>
          fst (invoke_try B2 p ''azure-openai'' m e s) = Inl IndexError \<and>
          fst (invoke B2 p ''azure-openai'' m e s)
            = PyStr ''An error occurred while processing the request.'' \<and>
          new_events s (snd (invoke B2 p ''azure-openai'' m e s)) =
            [AzureOpenAI_init (azure_config (secret_variables s) e),
             Chat_completions_create m p, St_error IndexError])"
proof (intro conjI impI)
  assume a: "chat_completions_create B (azure_config (secret_variables s) e) m p = Returns None"
  have t: "invoke_try B p ''azure-openai'' m e s =
             (Inl NoResponseException,
              emit (Chat_completions_create m p)
                (emit (AzureOpenAI_init (azure_config (secret_variables s) e)) s))"
    using assms a by (simp add: invoke_try_def dispatch_def azure_generate_def Let_def)
  show "fst (invoke_try B p ''azure-openai'' m e s) = Inl NoResponseException"
    using t by simp
  show "fst (invoke B p ''azure-openai'' m e s)
          = PyStr ''An error occurred while processing the request.''"
    using t by (simp add: invoke_def generic_error_message_def)
  show "new_events s (snd (invoke B p ''azure-openai'' m e s)) =
          [AzureOpenAI_init (azure_config (secret_variables s) e),
           Chat_completions_create m p, St_error NoResponseException]"
    using t by (simp add: invoke_def emit_def new_events_def)
next
  assume a: "generate_content B (google_config (secret_variables s) e) m p = Raises ValueError"
  have t: "invoke_try B p ''google-generativeai'' m e s =
           (Inl ValueError,
            emit (Generate_content m p)
              (emit (Genai_configure (google_config (secret_variables s) e))
                 (s\<lparr>genai_client_config := Some (google_config (secret_variables s) e)\<rparr>)))"
    using assms a by (intro invoke_try_trace_google) simp_all
  show "fst (invoke_try B p ''google-generativeai'' m e s) = Inl ValueError"
    using t by simp
  show "fst (invoke B p ''google-generativeai'' m e s)
          = PyStr ''An error occurred while processing the request.''"
    using t by (simp add: invoke_def generic_error_message_def)
  show "new_events s (snd (invoke B p ''google-generativeai'' m e s)) =
          [Genai_configure (google_config (secret_variables s) e),
           Generate_content m p, St_error ValueError]"
    using t by (simp add: invoke_def emit_def new_events_def)
next
  assume a: "chat_completions_create B2 (azure_config (secret_variables s) e) m p
               = Raises IndexError"
  have t: "invoke_try B2 p ''azure-openai'' m e s =
             (Inl IndexError,
              emit (Chat_completions_create m p)
                (emit (AzureOpenAI_init (azure_config (secret_variables s) e)) s))"
    using assms a by (intro invoke_try_trace_azure) simp_all
  show "fst (invoke_try B2 p ''azure-openai'' m e s) = Inl IndexError"
    using t by simp
  show "fst (invoke B2 p ''azure-openai'' m e s)
          = PyStr ''An error occurred while processing the request.''"
    using t by (simp add: invoke_def generic_error_message_def)
  show "new_events s (snd (invoke B2 p ''azure-openai'' m e s)) =
          [AzureOpenAI_init (azure_config (secret_variables s) e),
           Chat_completions_create m p, St_error IndexError]"
    using t by (simp add: invoke_def emit_def new_events_def)
qed

theorem invoke_no_usable_text_witness:
  "''hi'' \<noteq> [] \<and>
   chat_completions_create (stub_backend (Raises ValueError) (Returns None))
      (azure_config (secret_variables (init_process example_secrets)) True) ''gpt'' ''hi''
     = Returns None \<and>
   generate_content (stub_backend (Raises ValueError) (Returns None))
      (google_config (secret_variables (init_process example_secrets)) True) ''gpt'' ''hi''
     = Raises ValueError \<and>
   chat_completions_create (stub_backend (Returns ''hello'') (Raises IndexError))
      (azure_config (secret_variables (init_process example_secrets)) True) ''gpt'' ''hi''
     = Raises IndexError \<and>
   fst (invoke_try (stub_backend (Raises ValueError) (Returns None)) ''hi'' ''azure-openai''
          ''gpt'' True (init_process example_secrets)) = Inl NoResponseException \<and>
   fst (invoke_try (stub_backend (Raises ValueError) (Returns None)) ''hi''
          ''google-generativeai'' ''gpt'' True (init_process example_secrets))
     = Inl ValueError \<and>
   fst (invoke_try (stub_backend (Returns ''hello'') (Raises IndexError)) ''hi''
          ''azure-openai'' ''gpt'' True (init_process example_secrets)) = Inl IndexError \<and>
   fst (invoke (stub_backend (Raises ValueError) (Returns None)) ''hi''
          ''google-generativeai'' ''gpt'' True (init_process example_secrets))
     = PyStr ''An error occurred while processing the request.''"
  using invoke_no_usable_text
    [where p = "''hi''" and B = "stub_backend (Raises ValueError) (Returns None)"
       and ?B2.0 = "stub_backend (Returns ''hello'') (Raises IndexError)"
       and s = "init_process example_secrets" and e = True and m = "''gpt''"]
  by (simp add: stub_backend_def)

subsection \<open>Credential selection\<close>

text \<open>
  Claim C6. The credentials a helper hands to its SDK are fixed by the provider and the
  mode alone, whatever the prompt, the model name, the backend and the earlier state are.
  In enterprise mode both helpers pass the Aether API key and the Aether proxy endpoint
  (Gemini over the REST transport). In direct mode the Azure helper passes the Azure API key
  and the Azure endpoint, and the Gemini helper passes the Google API key and no endpoint
  override, so that the SDK calls the Gemini API at its own address. The first two outward
  calls of a helper are the client configuration with these values and the request.
\<close>

theorem credential_selection:
  "take 2 (new_events s (snd (google_generate B p m True s))) =
     [Genai_configure \<lparr>cfg_api_key = aether_api_key (secret_variables s),
                       cfg_transport = Some ''rest'',
                       cfg_api_endpoint = Some (aether_proxy_endpoint (secret_variables s))\<rparr>,
      Generate_content m p] \<and>
   take 2 (new_events s (snd (google_generate B p m False s))) =
     [Genai_configure \<lparr>cfg_api_key = google_api_key (secret_variables s),
                       cfg_transport = None, cfg_api_endpoint = None\<rparr>,
      Generate_content m p] \<and>
   take 2 (new_events s (snd (azure_generate B p m True s))) =
     [AzureOpenAI_init \<lparr>client_api_key = aether_api_key (secret_variables s),
                        client_azure_endpoint = aether_proxy_endpoint (secret_variables s),
                        client_api_version = azure_openai_api_version (secret_variables s)\<rparr>,
      Chat_completions_create m p] \<and>
   take 2 (new_events s (snd (azure_generate B p m False s))) =
     [AzureOpenAI_init \<lparr>client_api_key = azure_api_key (secret_variables s),
                        client_azure_endpoint = azure_endpoint (secret_variables s),
                        client_api_version = azure_openai_api_version (secret_variables s)\<rparr>,
      Chat_completions_create m p]"
proof -
  have g: "take 2 (new_events s (snd (google_generate B p m b s))) =
             [Genai_configure (google_config (secret_variables s) b), Generate_content m p]"
    for b
    using google_generate_trace [of B p m b s]
    by (auto simp add: new_events_def numeral_2_eq_2)
  have a: "take 2 (new_events s (snd (azure_generate B p m b s))) =
             [AzureOpenAI_init (azure_config (secret_variables s) b),
              Chat_completions_create m p]"
    for b
    using azure_generate_trace [of B p m b s]
    by (auto simp add: new_events_def numeral_2_eq_2)
  show ?thesis
    by (simp add: g a google_config_def azure_config_def)
qed

subsection \<open>The error normalisers\<close>

lemma handle_gemini_exception_message:
  assumes "gexc_response exc = Some (JsonBody (PyDict d))"
    and "map_of d ''error'' = Some (PyDict d')" and "map_of d' ''message'' = Some v"
  shows "handle_gemini_exception exc = Inr v"
  using assms by (simp add: handle_gemini_exception_def py_get_def)

lemma handle_gemini_exception_fallback:
  assumes "gexc_response exc = Some (JsonBody (PyDict d))"
    and "map_of d ''error'' = None \<or>
         (\<exists>d'. map_of d ''error'' = Some (PyDict d') \<and> map_of d' ''message'' = None)"
  shows "handle_gemini_exception exc = Inr (PyStr (gexc_repr exc))"
  using assms by (auto simp add: handle_gemini_exception_def py_get_def)

lemma handle_azure_exception_message:
  assumes "aexc_body exc = PyDict d" and "map_of d ''message'' = Some v"
  shows "handle_azure_exception exc = Inr v"
  using assms by (simp add: handle_azure_exception_def py_get_def)

lemma handle_azure_exception_fallback:
  assumes "aexc_body exc = PyDict d" and "map_of d ''message'' = None"
  shows "handle_azure_exception exc = Inr (PyStr (aexc_repr exc))"
  using assms by (simp add: handle_azure_exception_def py_get_def)

text \<open>The error body \<^verbatim>\<open>{"error": {"message": "quota exceeded"}}\<close> of the specification.\<close>

lemma handle_gemini_exception_quota:
  "handle_gemini_exception (gemini_error quota_body) = Inr (PyStr ''quota exceeded'')"
  by (simp add: handle_gemini_exception_def py_get_def gemini_error_def quota_body_def)

lemma handle_gemini_exception_None_iff:
  "handle_gemini_exception g = Inr PyNone \<longleftrightarrow>
     (\<exists>d d'. gexc_response g = Some (JsonBody (PyDict d)) \<and>
             map_of d ''error'' = Some (PyDict d') \<and> map_of d' ''message'' = Some PyNone)"
  by (auto simp add: handle_gemini_exception_def py_get_def
        split: option.splits http_response.splits pyval.splits)

lemma handle_gemini_exception_value:
  "handle_gemini_exception g = Inr v \<Longrightarrow>
     v = PyStr (gexc_repr g) \<or>
     (\<exists>d d'. gexc_response g = Some (JsonBody (PyDict d)) \<and>
             map_of d ''error'' = Some (PyDict d') \<and> map_of d' ''message'' = Some v)"
  by (auto simp add: handle_gemini_exception_def py_get_def
        split: option.splits http_response.splits pyval.splits)

text \<open>
  Claim C4: each normaliser extracts the provider's message field and falls back to the
  textual form of the error whenever that field is absent. The extraction and the fallback
  are the lemmas above, and they need the body to be a dictionary (and, for Gemini, the
  value at \<^verbatim>\<open>error\<close> to be one). An OpenAI error without a body, which is what a connection
  error or a timeout carries, has no message field, and there the normaliser does not fall
  back: \<^verbatim>\<open>exc.body.get\<close> raises \<^verbatim>\<open>AttributeError\<close> on \<^verbatim>\<open>None\<close>, the exception leaves
  \<^verbatim>\<open>_azure_generate\<close>, and \<^verbatim>\<open>invoke\<close> answers with the generic string instead of the
  textual form of the error. The Gemini normaliser does the same on an error that carries
  no response object.
\<close>

theorem handle_azure_exception_without_body:
  "handle_azure_exception (openai_error PyNone) = Inl AttributeError \<and>
   invoke (stub_backend (Returns ''hello'') (Raises (OpenAIAPIError (openai_error PyNone))))
      ''hi'' ''azure-openai'' ''gpt'' False (init_process example_secrets)
     = (PyStr generic_error_message,
        \<lparr>secret_variables = example_secrets, genai_client_config = None,
         trace = [AzureOpenAI_init (azure_config example_secrets False),
                  Chat_completions_create ''gpt'' ''hi'',
                  Logger_exception (OpenAIAPIError (openai_error PyNone)),
                  St_error AttributeError]\<rparr>) \<and>
   handle_gemini_exception \<lparr>gexc_response = None, gexc_repr = ''GoogleAPIError()''\<rparr>
     = Inl AttributeError"
  by (simp add: handle_azure_exception_def handle_gemini_exception_def py_get_def
        openai_error_def invoke_def invoke_try_def dispatch_def azure_generate_def
        stub_backend_def init_process_def emit_def Let_def)

subsection \<open>What \<^verbatim>\<open>_google_generate\<close> returns\<close>

text \<open>
  Claim C10: \<^verbatim>\<open>_google_generate\<close> returns a string on its success path and on its
  caught-error path and never returns \<^verbatim>\<open>None\<close>, so that only the Azure branch can trigger
  the \<^verbatim>\<open>None\<close> check of \<^verbatim>\<open>invoke\<close>. That is what the annotation \<^verbatim>\<open>-> str\<close> and the
  docstrings of the helper and of \<^verbatim>\<open>handle_gemini_exception\<close> promise, and the code breaks
  it: on a Gemini error whose body is \<^verbatim>\<open>{"error": {"message": null}}\<close> the key is present,
  so \<^verbatim>\<open>dict.get\<close> returns its value \<^verbatim>\<open>None\<close> and not the default, the helper returns
  \<^verbatim>\<open>None\<close>, and \<^verbatim>\<open>invoke\<close> raises \<^verbatim>\<open>NoResponseException\<close> in the Google branch.
\<close>

theorem google_generate_null_message:
  "fst (google_generate
          (stub_backend (Raises (GoogleAPIError (gemini_error null_message_body))) (Returns None))
          ''hi'' ''gemini-pro'' True (init_process example_secrets)) = Inr PyNone \<and>
   fst (invoke_try
          (stub_backend (Raises (GoogleAPIError (gemini_error null_message_body))) (Returns None))
          ''hi'' ''google-generativeai'' ''gemini-pro'' True (init_process example_secrets))
     = Inl NoResponseException"
  by (simp add: invoke_try_fst dispatch_fst google_generate_fst stub_backend_def
        handle_gemini_exception_def py_get_def gemini_error_def null_message_body_def)

subsection \<open>Failures inside \<^verbatim>\<open>invoke\<close>\<close>

lemma invoke_try_unknown_provider:
  assumes "l \<noteq> ''google-generativeai''" and "l \<noteq> ''azure-openai''" and "p \<noteq> []"
  shows "invoke_try B p l m e s = (Inl UnboundLocalError, s)"
  using assms by (simp add: invoke_try_def dispatch_def)

text \<open>
  An exception of the backend that is not the provider's API error is not caught by the
  helper; it reaches the \<^verbatim>\<open>try\<close> block of \<^verbatim>\<open>invoke\<close> as it is.
\<close>

lemma invoke_try_uncaught:
  assumes "p \<noteq> []"
    and "(l = ''google-generativeai'' \<and>
            generate_content B (google_config (secret_variables s) e) m p = Raises exc \<and>
            (\<forall>g. exc \<noteq> GoogleAPIError g)) \<or>
         (l = ''azure-openai'' \<and>
            chat_completions_create B (azure_config (secret_variables s) e) m p = Raises exc \<and>
            (\<forall>a. exc \<noteq> OpenAIAPIError a))"
  shows "fst (invoke_try B p l m e s) = Inl exc"
  using assms
  by (auto simp add: invoke_try_fst dispatch_fst google_generate_fst azure_generate_fst
        split: exn.splits)

lemma invoke_normalised_google:
  assumes "p \<noteq> []"
    and "generate_content B (google_config (secret_variables s) e) m p
           = Raises (GoogleAPIError g)"
    and "handle_gemini_exception g = Inr (PyStr msg)"
  shows "fst (invoke B p ''google-generativeai'' m e s) = PyStr msg"
  using assms
  by (simp add: invoke_fst invoke_try_fst dispatch_fst google_generate_fst)

lemma invoke_normalised_azure:
  assumes "p \<noteq> []"
    and "chat_completions_create B (azure_config (secret_variables s) e) m p
           = Raises (OpenAIAPIError a)"
    and "handle_azure_exception a = Inr (PyStr msg)"
  shows "fst (invoke B p ''azure-openai'' m e s) = PyStr msg"
  using assms
  by (simp add: invoke_fst invoke_try_fst dispatch_fst azure_generate_fst)

lemma chat_turn_unknown_provider:
  assumes "p \<noteq> []" and "l \<noteq> ''google-generativeai''" and "l \<noteq> ''azure-openai''"
  shows "chat_turn B p (ss\<lparr>llm_provider := l\<rparr>) s = (Inl LLMProviderNotFoundException, s)"
  using assms by (simp add: chat_turn_def Let_def)

text \<open>
  Claim C1, as stated: every failure inside \<^verbatim>\<open>invoke\<close>, backend errors included, ends as
  the one generic string, and \<^verbatim>\<open>invoke\<close> always returns a string. A Gemini API error
  with the body \<^verbatim>\<open>{"error": {"message": "quota exceeded"}}\<close> is caught inside the helper
  and \<^verbatim>\<open>invoke\<close> returns \<^verbatim>\<open>quota exceeded\<close>, not the generic string; with the body
  \<^verbatim>\<open>{"error": {"message": 429}}\<close> it returns the number.
\<close>

theorem invoke_converts_backend_errors_counterexample:
  "fst (invoke (stub_backend (Raises (GoogleAPIError (gemini_error quota_body))) (Returns None))
          ''hi'' ''google-generativeai'' ''gemini-pro'' True (init_process example_secrets))
     = PyStr ''quota exceeded'' \<and>
   fst (invoke (stub_backend (Raises (GoogleAPIError (gemini_error quota_body))) (Returns None))
          ''hi'' ''google-generativeai'' ''gemini-pro'' True (init_process example_secrets))
     \<noteq> PyStr generic_error_message \<and>
   fst (invoke
          (stub_backend (Raises (GoogleAPIError (gemini_error numeric_message_body)))
             (Returns None))
          ''hi'' ''google-generativeai'' ''gemini-pro'' True (init_process example_secrets))
     = PyNum 429"
  by (simp add: invoke_fst invoke_try_fst dispatch_fst google_generate_fst stub_backend_def
        handle_gemini_exception_def py_get_def gemini_error_def quota_body_def
        numeric_message_body_def generic_error_message_def)

text \<open>
  Claim C1, amended. With a non-empty prompt:
  \<^item> every exception raised inside the \<^verbatim>\<open>try\<close> block of \<^verbatim>\<open>invoke\<close> is caught there,
    reported with \<^verbatim>\<open>st.error\<close> and turned into the one generic string;
  \<^item> these exceptions include every backend exception that the provider helper does not
    catch (any that is not the provider's API error), the no-response failure
    (\<^verbatim>\<open>NoResponseException\<close>, when the Azure content is \<^verbatim>\<open>None\<close>), and, for a selector
    that is not one of the two known values, the unbound local \<^verbatim>\<open>response\<close>;
  \<^item> the provider-not-found error is not among them: it is raised by the caller of
    \<^verbatim>\<open>invoke\<close>, the chat turn, before \<^verbatim>\<open>invoke\<close> is called, and nothing catches it there;
  \<^item> a backend API error that the provider helper catches and normalises to a message
    string is not turned into the generic string: \<^verbatim>\<open>invoke\<close> returns that message.
  In each of these cases what \<^verbatim>\<open>invoke\<close> returns is a string.
\<close>

theorem invoke_failures:
  assumes "p \<noteq> []"
  shows
    "(fst (invoke_try B2 p l2 m e s) = Inl exc \<longrightarrow>
        invoke B2 p l2 m e s =
          (PyStr ''An error occurred while processing the request.'',
           emit (St_error exc) (snd (invoke_try B2 p l2 m e s)))) \<and>
     (generate_content B2 (google_config (secret_variables s) e) m p = Raises exc \<and>
      (\<forall>g. exc \<noteq> GoogleAPIError g) \<longrightarrow>
        fst (invoke_try B2 p ''google-generativeai'' m e s) = Inl exc) \<and>
     (chat_completions_create B2 (azure_config (secret_variables s) e) m p = Raises exc2 \<and>
      (\<forall>a. exc2 \<noteq> OpenAIAPIError a) \<longrightarrow>
        fst (invoke_try B2 p ''azure-openai'' m e s) = Inl exc2) \<and>
     (chat_completions_create B (azure_config (secret_variables s) e) m p = Returns None
        \<longrightarrow>
        fst (invoke_try B p ''azure-openai'' m e s) = Inl NoResponseException) \<and>
     (l \<noteq> ''google-generativeai'' \<and> l \<noteq> ''azure-openai'' \<longrightarrow>
        invoke_try B p l m e s = (Inl UnboundLocalError, s) \<and>
        chat_turn B p (ss\<lparr>llm_provider := l\<rparr>) s = (Inl LLMProviderNotFoundException, s)) \<and>
     (generate_content B (google_config (secret_variables s) e) m p
        = Raises (GoogleAPIError g) \<and>
      handle_gemini_exception g = Inr (PyStr msg) \<longrightarrow>
        fst (invoke B p ''google-generativeai'' m e s) = PyStr msg) \<and>
     (chat_completions_create B3 (azure_config (secret_variables s) e) m p
        = Raises (OpenAIAPIError a) \<and>
      handle_azure_exception a = Inr (PyStr msg2) \<longrightarrow>
        fst (invoke B3 p ''azure-openai'' m e s) = PyStr msg2)"
proof (intro conjI impI)
  assume "fst (invoke_try B2 p l2 m e s) = Inl exc"
  then show "invoke B2 p l2 m e s =
          (PyStr ''An error occurred while processing the request.'',
           emit (St_error exc) (snd (invoke_try B2 p l2 m e s)))"
    by (simp add: invoke_unfold generic_error_message_def)
next
  assume "generate_content B2 (google_config (secret_variables s) e) m p = Raises exc \<and>
          (\<forall>g. exc \<noteq> GoogleAPIError g)"
  with assms show "fst (invoke_try B2 p ''google-generativeai'' m e s) = Inl exc"
    by (simp add: invoke_try_trace_google)
next
  assume "chat_completions_create B2 (azure_config (secret_variables s) e) m p = Raises exc2 \<and>
          (\<forall>a. exc2 \<noteq> OpenAIAPIError a)"
  with assms show "fst (invoke_try B2 p ''azure-openai'' m e s) = Inl exc2"
    by (simp add: invoke_try_trace_azure)
next
  assume "chat_completions_create B (azure_config (secret_variables s) e) m p = Returns None"
  with assms show "fst (invoke_try B p ''azure-openai'' m e s) = Inl NoResponseException"
    by (simp add: invoke_try_fst dispatch_fst azure_generate_fst)
next
  assume "l \<noteq> ''google-generativeai'' \<and> l \<noteq> ''azure-openai''"
  with assms show "invoke_try B p l m e s = (Inl UnboundLocalError, s)"
    by (simp add: invoke_try_unknown_provider)
next
  assume "l \<noteq> ''google-generativeai'' \<and> l \<noteq> ''azure-openai''"
  with assms
  show "chat_turn B p (ss\<lparr>llm_provider := l\<rparr>) s = (Inl LLMProviderNotFoundException, s)"
    by (simp add: chat_turn_unknown_provider)
next
  assume "generate_content B (google_config (secret_variables s) e) m p
            = Raises (GoogleAPIError g) \<and>
          handle_gemini_exception g = Inr (PyStr msg)"
  with assms show "fst (invoke B p ''google-generativeai'' m e s) = PyStr msg"
    by (simp add: invoke_normalised_google)
next
  assume "chat_completions_create B3 (azure_config (secret_variables s) e) m p
            = Raises (OpenAIAPIError a) \<and>
          handle_azure_exception a = Inr (PyStr msg2)"
  with assms show "fst (invoke B3 p ''azure-openai'' m e s) = PyStr msg2"
    by (simp add: invoke_normalised_azure)
qed

text \<open>
  A backend that raises \<^verbatim>\<open>ValueError\<close> and \<^verbatim>\<open>IndexError\<close>, one that raises the quota
  error of the specification and returns no Azure content, one that raises an OpenAI API
  error with a message, and the selector \<^verbatim>\<open>cohere\<close>.
\<close>

theorem invoke_failures_witness:
  "''hi'' \<noteq> [] \<and>
   invoke (stub_backend (Raises ValueError) (Raises IndexError)) ''hi''
      ''google-generativeai'' ''gpt'' True (init_process example_secrets)
     = (PyStr ''An error occurred while processing the request.'',
        emit (St_error ValueError)
          (snd (invoke_try (stub_backend (Raises ValueError) (Raises IndexError)) ''hi''
                  ''google-generativeai'' ''gpt'' True (init_process example_secrets)))) \<and>
   fst (invoke_try (stub_backend (Raises ValueError) (Raises IndexError)) ''hi''
          ''google-generativeai'' ''gpt'' True (init_process example_secrets))
     = Inl ValueError \<and>
   fst (invoke_try (stub_backend (Raises ValueError) (Raises IndexError)) ''hi''
          ''azure-openai'' ''gpt'' True (init_process example_secrets))
     = Inl IndexError \<and>
   fst (invoke_try
          (stub_backend (Raises (GoogleAPIError (gemini_error quota_body))) (Returns None))
          ''hi'' ''azure-openai'' ''gpt'' True (init_process example_secrets))
     = Inl NoResponseException \<and>
   invoke_try
      (stub_backend (Raises (GoogleAPIError (gemini_error quota_body))) (Returns None))
      ''hi'' ''cohere'' ''gpt'' True (init_process example_secrets)
     = (Inl UnboundLocalError, init_process example_secrets) \<and>
   chat_turn
      (stub_backend (Raises (GoogleAPIError (gemini_error quota_body))) (Returns None)) ''hi''
      \<lparr>messages = [], is_enterprise_mode = True, llm_provider = ''cohere'',
       model_selected = ''gpt''\<rparr> (init_process example_secrets)
     = (Inl LLMProviderNotFoundException, init_process example_secrets) \<and>
   fst (invoke
          (stub_backend (Raises (GoogleAPIError (gemini_error quota_body))) (Returns None))
          ''hi'' ''google-generativeai'' ''gpt'' True (init_process example_secrets))
     = PyStr ''quota exceeded'' \<and>
   fst (invoke
          (stub_backend (Returns ''hello'')
             (Raises (OpenAIAPIError (openai_error rate_limit_body))))
          ''hi'' ''azure-openai'' ''gpt'' True (init_process example_secrets))
     = PyStr ''rate limit reached''"
proof -
  have h: "handle_azure_exception (openai_error rate_limit_body)
             = Inr (PyStr ''rate limit reached'')"
    by (simp add: handle_azure_exception_def py_get_def openai_error_def rate_limit_body_def)
  have v: "fst (invoke_try (stub_backend (Raises ValueError) (Raises IndexError)) ''hi''
                  ''google-generativeai'' ''gpt'' True (init_process example_secrets))
             = Inl ValueError"
    by (simp add: invoke_try_fst dispatch_fst google_generate_fst stub_backend_def)
  show ?thesis
    using invoke_failures
      [where p = "''hi''"
         and ?B2.0 = "stub_backend (Raises ValueError) (Raises IndexError)"
         and ?l2.0 = "''google-generativeai''" and exc = ValueError and ?exc2.0 = IndexError
         and B = "stub_backend (Raises (GoogleAPIError (gemini_error quota_body)))
                    (Returns None)"
         and l = "''cohere''"
         and ss = "\<lparr>messages = [], is_enterprise_mode = True, llm_provider = ''cohere'',
                      model_selected = ''gpt''\<rparr>"
         and g = "gemini_error quota_body" and msg = "''quota exceeded''"
         and ?B3.0 = "stub_backend (Returns ''hello'')
                        (Raises (OpenAIAPIError (openai_error rate_limit_body)))"
         and a = "openai_error rate_limit_body" and ?msg2.0 = "''rate limit reached''"
         and s = "init_process example_secrets" and e = True and m = "''gpt''"]
      h v
    by (simp add: stub_backend_def handle_gemini_exception_quota)
qed

subsection \<open>An unknown provider selector\<close>

text \<open>
  Claim C2, as stated: with a selector other than the two known ones \<^verbatim>\<open>invoke\<close> fails
  with the provider-not-found error. \<^verbatim>\<open>invoke\<close> has no such check. With the selector
  \<^verbatim>\<open>cohere\<close> and a non-empty prompt the exception inside its \<^verbatim>\<open>try\<close> block is the
  \<^verbatim>\<open>UnboundLocalError\<close> of the variable \<^verbatim>\<open>response\<close>; with an empty prompt there is no
  failure at all.
\<close>

theorem unknown_provider_counterexample:
  "fst (invoke_try (stub_backend (Returns ''hello'') (Returns (Some ''hello''))) ''hi''
          ''cohere'' ''command'' False (init_process example_secrets))
     = Inl UnboundLocalError \<and>
   fst (invoke_try (stub_backend (Returns ''hello'') (Returns (Some ''hello''))) ''hi''
          ''cohere'' ''command'' False (init_process example_secrets))
     \<noteq> Inl LLMProviderNotFoundException \<and>
   fst (invoke_try (stub_backend (Returns ''hello'') (Returns (Some ''hello''))) []
          ''cohere'' ''command'' False (init_process example_secrets))
     = Inr (PyStr empty_prompt_message)"
  by (simp add: invoke_try_def dispatch_def)

text \<open>
  Claim C2, amended. The selector is checked by the caller of \<^verbatim>\<open>invoke\<close>: a chat turn
  whose selector is not one of the two known values raises
  \<^verbatim>\<open>LLMProviderNotFoundException\<close> before \<^verbatim>\<open>invoke\<close> is called and leaves the process
  state untouched, so no credential is selected and no backend is called. The attribute
  \<^verbatim>\<open>message\<close> of the exception raised is the text
  \<^verbatim>\<open>The LLM provider must be one of the following: \<close> followed by the rendering of
  \<^verbatim>\<open>LLM_PROVIDERS\<close>. \<^verbatim>\<open>invoke\<close> itself never fails with that exception; called with such
  a selector it configures no SDK client and sends no request either.
\<close>

theorem unknown_provider:
  assumes "llm_provider ss \<noteq> ''google-generativeai''"
    and "llm_provider ss \<noteq> ''azure-openai''"
    and "p \<noteq> []"
  shows "chat_turn B p ss s = (Inl LLMProviderNotFoundException, s) \<and>
         (case fst (chat_turn B p ss s) of
            Inl exc \<Rightarrow> class_message llm_providers exc
          | Inr ss' \<Rightarrow> None)
           = Some (''The LLM provider must be one of the following: '' @ llm_providers) \<and>
         fst (invoke_try B p (llm_provider ss) m e s) \<noteq> Inl LLMProviderNotFoundException \<and>
         genai_client_config (snd (invoke B p (llm_provider ss) m e s))
           = genai_client_config s \<and>
         filter is_outward_call (new_events s (snd (invoke B p (llm_provider ss) m e s))) = []"
proof -
  have t: "invoke_try B p (llm_provider ss) m e s = (Inl UnboundLocalError, s)"
    using assms by (rule invoke_try_unknown_provider)
  have c: "chat_turn B p ss s = (Inl LLMProviderNotFoundException, s)"
    using assms by (simp add: chat_turn_def Let_def)
  show ?thesis
    using t c
    by (simp add: invoke_unfold emit_def new_events_def is_outward_call_def
          class_message_def LLMProviderNotFoundException_message_def)
qed

theorem unknown_provider_witness:
  "llm_provider \<lparr>messages = [], is_enterprise_mode = False, llm_provider = ''cohere'',
                  model_selected = ''command''\<rparr> \<noteq> ''google-generativeai'' \<and>
   llm_provider \<lparr>messages = [], is_enterprise_mode = False, llm_provider = ''cohere'',
                  model_selected = ''command''\<rparr> \<noteq> ''azure-openai'' \<and>
   ''hi'' \<noteq> [] \<and>
   chat_turn (stub_backend (Returns ''hello'') (Returns (Some ''hello''))) ''hi''
     \<lparr>messages = [], is_enterprise_mode = False, llm_provider = ''cohere'',
      model_selected = ''command''\<rparr> (init_process example_secrets)
     = (Inl LLMProviderNotFoundException, init_process example_secrets) \<and>
   class_message ''[google-generativeai, azure-openai]'' LLMProviderNotFoundException
     = Some ''The LLM provider must be one of the following: [google-generativeai, azure-openai]'' \<and>
   filter is_outward_call
     (new_events (init_process example_secrets)
        (snd (invoke (stub_backend (Returns ''hello'') (Returns (Some ''hello''))) ''hi''
                ''cohere'' ''command'' False (init_process example_secrets)))) = []"
  using unknown_provider
    [where ss = "\<lparr>messages = [], is_enterprise_mode = False, llm_provider = ''cohere'',
          model_selected = ''command''\<rparr>" and p = "''hi''"
        and B = "stub_backend (Returns ''hello'') (Returns (Some ''hello''))"
        and s = "init_process example_secrets" and m = "''command''" and e = False
        and llm_providers = "''[google-generativeai, azure-openai]''"]
  by auto

end
